theory Spec2Isabelle
  imports Complex_Main "HOL-Library.Char_ord" "HOL-Library.List_Lexorder"
begin

section \<open>Data model\<close>

text \<open>
  A draw result table is a pandas DataFrame indexed by draw date with the columns
  \<^verbatim>\<open>Prize Number\<close> and \<^verbatim>\<open>Prize Type\<close>. It is modelled as the list of its rows, in
  frame order. The index holds timestamps (seconds since the epoch, as an unbounded
  integer); prize numbers and prize types are the strings the scraper stored.
  Strings are ordered lexicographically by character code, which is Python's order on
  \<^verbatim>\<open>str\<close> for ASCII text.
\<close>

type_synonym timestamp = int

record row =
  idx :: timestamp
  prize_number :: string
  prize_type :: string

type_synonym dataframe = "row list"

text \<open>constants.py\<close>

definition FD_FIRST_PRIZE_CLASS :: string where
  "FD_FIRST_PRIZE_CLASS = ''tdFirstPrize''"

definition FD_SECOND_PRIZE_CLASS :: string where
  "FD_SECOND_PRIZE_CLASS = ''tdSecondPrize''"

definition FD_THIRD_PRIZE_CLASS :: string where
  "FD_THIRD_PRIZE_CLASS = ''tdThirdPrize''"

definition FD_STARTER_PRIZE_CLASS :: string where
  "FD_STARTER_PRIZE_CLASS = ''tbodyStarterPrizes''"

definition FD_CONSOLATION_PRIZE_CLASS :: string where
  "FD_CONSOLATION_PRIZE_CLASS = ''tbodyConsolationPrizes''"

definition TOP_3_PRIZE_TYPES :: "string list" where
  "TOP_3_PRIZE_TYPES = [FD_FIRST_PRIZE_CLASS, FD_SECOND_PRIZE_CLASS, FD_THIRD_PRIZE_CLASS]"

section \<open>filter.py\<close>

text \<open>
  \<^verbatim>\<open>set(df['Prize Number'].unique())\<close>: the set of prize numbers of a frame.
\<close>

definition unique_prize_numbers :: "dataframe \<Rightarrow> string set" where
  "unique_prize_numbers df = set (map prize_number df)"

text \<open>
  \<^verbatim>\<open>number_counts = df['Prize Number'].value_counts()\<close> followed by
  \<^verbatim>\<open>set(number_counts[number_counts > 1].index)\<close>: the prize numbers that occur in
  more than one row.
\<close>

definition numbers_appeared_multiple :: "dataframe \<Rightarrow> string set" where
  "numbers_appeared_multiple df =
     (let col = map prize_number df in set (filter (\<lambda>n. 1 < count_list col n) col))"

text \<open>
  \<^verbatim>\<open>filter_numbers_by_history(numbers, past_6_months_df, past_1_year_df)\<close>. The
  candidates arrive as a set or a list and are turned into a set first; every list the
  function returns is \<^verbatim>\<open>sorted(...)\<close> of a set. The result is the tuple
  \<^verbatim>\<open>(filtered_numbers, appeared_in_6_months, appeared_in_top3_1year, appeared_multiple_1year)\<close>.
\<close>

definition filter_numbers_by_history ::
  "string list \<Rightarrow> dataframe \<Rightarrow> dataframe \<Rightarrow>
     string list \<times> string list \<times> string list \<times> string list" where
  "filter_numbers_by_history numbers past_6_months_df past_1_year_df =
     (let numbers_set = set numbers;
          winning_numbers_6_months = unique_prize_numbers past_6_months_df;
          appeared_in_6_months =
            sorted_list_of_set
              (Set.filter (\<lambda>num. num \<in> winning_numbers_6_months) numbers_set);
          filtered_after_6_months = numbers_set - winning_numbers_6_months;
          (appeared_in_top3_1year, filtered_after_top3) =
            (if past_1_year_df \<noteq> [] then
               let top_3_prizes_df =
                     filter (\<lambda>r. prize_type r \<in> set TOP_3_PRIZE_TYPES) past_1_year_df;
                   top_3_numbers_1_year = unique_prize_numbers top_3_prizes_df
               in (sorted_list_of_set
                     (Set.filter (\<lambda>num. num \<in> top_3_numbers_1_year) filtered_after_6_months),
                   filtered_after_6_months - top_3_numbers_1_year)
             else ([], filtered_after_6_months));
          (appeared_multiple_1year, filtered_numbers) =
            (if past_1_year_df \<noteq> [] then
               let multiple = numbers_appeared_multiple past_1_year_df
               in (sorted_list_of_set
                     (Set.filter (\<lambda>num. num \<in> multiple) filtered_after_top3),
                   filtered_after_top3 - multiple)
             else ([], filtered_after_top3))
      in (sorted_list_of_set filtered_numbers, appeared_in_6_months,
          appeared_in_top3_1year, appeared_multiple_1year))"

section \<open>analyzer.py\<close>

text \<open>
  Exceptions that can leave a function are values: a function that can raise returns
  \<open>error + 'a\<close>, with \<open>Inl\<close> the exception.
\<close>

datatype error = IndexError | ZeroDivisionError | ValueError | ConnectionError

text \<open>
  The string methods the analyzer uses, on ASCII text: \<^verbatim>\<open>str.isspace\<close> holds for the
  characters 9 to 13, 28 to 31 and 32; \<^verbatim>\<open>str.strip()\<close> removes them from both ends;
  \<^verbatim>\<open>str.isdigit\<close> holds for the characters 0 to 9.
\<close>

definition isspace :: "char \<Rightarrow> bool" where
  "isspace c = (of_char c \<in> {9, 10, 11, 12, 13, 28, 29, 30, 31, 32 :: nat})"

definition strip :: "string \<Rightarrow> string" where
  "strip s = rev (dropWhile isspace (rev (dropWhile isspace s)))"

definition isdigit :: "char \<Rightarrow> bool" where
  "isdigit c = (c \<in> set ''0123456789'')"

text \<open>
  A dict is an association list with distinct keys, in insertion order (the order
  \<^verbatim>\<open>items()\<close> iterates in). \<^verbatim>\<open>{str(d): 0 for d in range(10)}\<close> has the keys
  below, in this order.
\<close>

definition digit_keys :: "string list" where
  "digit_keys = map (\<lambda>d. [d]) ''0123456789''"

text \<open>\<^verbatim>\<open>d[k] += w\<close> for a key the dict holds.\<close>

definition dict_add :: "string \<Rightarrow> 'a::plus \<Rightarrow> (string \<times> 'a) list \<Rightarrow> (string \<times> 'a) list" where
  "dict_add k w d = map (\<lambda>(k', v). if k' = k then (k', v + w) else (k', v)) d"






text \<open>
  Python floats are modelled as real numbers: the arithmetic below is exact, and the
  rounding of IEEE doubles is outside the model. Integer counts enter as reals too.
  \<^verbatim>\<open>bayesian_smoothing(digit_counts, alpha)\<close> divides once per key, so on an empty dict
  nothing is divided; a zero denominator raises ZeroDivisionError.
\<close>

definition bayesian_smoothing ::
  "(string \<times> real) list \<Rightarrow> real \<Rightarrow> error + (string \<times> real) list" where
  "bayesian_smoothing digit_counts alpha =
     (let total_count = sum_list (map snd digit_counts);
          n_digits = length digit_counts;
          denominator = total_count + real n_digits * alpha
      in if digit_counts \<noteq> [] \<and> denominator = 0 then Inl ZeroDivisionError
         else Inr (map (\<lambda>(digit, c). (digit, (c + alpha) / denominator)) digit_counts))"





section \<open>data_fetcher.py\<close>

text \<open>
  The scraped site is an input of the model. The request for the draw list stands
  outside every \<^verbatim>\<open>try\<close>: when it raises (no network), the exception leaves
  \<^verbatim>\<open>fetch_fd_results\<close>. Otherwise the site is its list of result pages, newest draw
  first. A page whose request, parsing or date raises, or that shows no draw date, is
  skipped by the loop's \<^verbatim>\<open>except\<close>/\<^verbatim>\<open>continue\<close>. A page with a date either yields its
  prizes, or raises while the prizes are read (which only happens for a draw in range,
  and is skipped as well).
\<close>

record prizes =
  first_prize :: string
  second_prize :: string
  third_prize :: string
  starter_prizes :: "string list"
  consolation_prizes :: "string list"

datatype page = Unavailable | DrawPage timestamp "prizes option"

datatype site = Unreachable | Site "page list"

text \<open>The rows appended to \<^verbatim>\<open>fd_result_list\<close> for one draw.\<close>

definition draw_rows :: "timestamp \<Rightarrow> prizes \<Rightarrow> row list" where
  "draw_rows t p =
     [\<lparr>idx = t, prize_number = first_prize p, prize_type = FD_FIRST_PRIZE_CLASS\<rparr>,
      \<lparr>idx = t, prize_number = second_prize p, prize_type = FD_SECOND_PRIZE_CLASS\<rparr>,
      \<lparr>idx = t, prize_number = third_prize p, prize_type = FD_THIRD_PRIZE_CLASS\<rparr>]
     @ map (\<lambda>n. \<lparr>idx = t, prize_number = n, prize_type = FD_STARTER_PRIZE_CLASS\<rparr>)
         (starter_prizes p)
     @ map (\<lambda>n. \<lparr>idx = t, prize_number = n, prize_type = FD_CONSOLATION_PRIZE_CLASS\<rparr>)
         (consolation_prizes p)"

text \<open>
  The loop over the draw list: it stops at the first dated page older than
  \<^verbatim>\<open>date_from\<close> and collects the rows of the draws in range.
\<close>

fun scan_draws :: "timestamp \<Rightarrow> timestamp \<Rightarrow> page list \<Rightarrow> row list" where
  "scan_draws date_from date_to [] = []"
| "scan_draws date_from date_to (Unavailable # pages) = scan_draws date_from date_to pages"
| "scan_draws date_from date_to (DrawPage fd_result_dt pr # pages) =
     (if fd_result_dt < date_from then []
      else if date_from \<le> fd_result_dt \<and> fd_result_dt \<le> date_to then
        (case pr of
           None \<Rightarrow> scan_draws date_from date_to pages
         | Some p \<Rightarrow> draw_rows fd_result_dt p @ scan_draws date_from date_to pages)
      else scan_draws date_from date_to pages)"

definition fetch_fd_results :: "site \<Rightarrow> timestamp \<Rightarrow> timestamp \<Rightarrow> error + dataframe" where
  "fetch_fd_results remote date_from date_to =
     (case remote of
        Unreachable \<Rightarrow> Inl ConnectionError
      | Site pages \<Rightarrow> Inr (scan_draws date_from date_to pages))"

section \<open>cache_manager.py\<close>

text \<open>
  Calendar dates are day numbers; \<^verbatim>\<open>.date()\<close> drops the time of day of a timestamp
  and \<^verbatim>\<open>pd.Timestamp(date)\<close> is midnight of that day.
\<close>

type_synonym date = int

definition date_of :: "timestamp \<Rightarrow> date" where
  "date_of t = t div 86400"

definition midnight :: "date \<Rightarrow> timestamp" where
  "midnight d = d * 86400"

text \<open>
  The cache file: absent, unreadable (unpickling raises), or a pickled dict with the
  entries \<^verbatim>\<open>dataframe\<close> and \<^verbatim>\<open>last_date\<close> (either may be missing). Writing the file
  is taken to succeed.
\<close>

datatype cache_file = Missing | Unreadable | Pickled "dataframe option" "date option"

definition load_cache :: "cache_file \<Rightarrow> dataframe option \<times> date option" where
  "load_cache cache_file =
     (case cache_file of
        Missing \<Rightarrow> (None, None)
      | Unreadable \<Rightarrow> (None, None)
      | Pickled df last_date \<Rightarrow>
          (case df of
             None \<Rightarrow> (None, None)
           | Some d \<Rightarrow> if d \<noteq> [] then (Some d, last_date) else (None, None)))"

definition save_cache :: "cache_file \<Rightarrow> dataframe \<Rightarrow> date \<Rightarrow> cache_file" where
  "save_cache cache_file df last_date = Pickled (Some df) (Some last_date)"

text \<open>\<^verbatim>\<open>df[(df.index >= pd.Timestamp(date_from)) & (df.index <= pd.Timestamp(date_to))]\<close>\<close>

definition date_mask :: "dataframe \<Rightarrow> timestamp \<Rightarrow> timestamp \<Rightarrow> dataframe" where
  "date_mask df date_from date_to = filter (\<lambda>r. date_from \<le> idx r \<and> idx r \<le> date_to) df"

text \<open>
  \<^verbatim>\<open>df[~df.index.duplicated(keep='last')]\<close>: a row stays when no later row has the
  same index value.
\<close>

fun drop_duplicated_index :: "dataframe \<Rightarrow> dataframe" where
  "drop_duplicated_index [] = []"
| "drop_duplicated_index (r # rs) =
     (if idx r \<in> set (map idx rs) then drop_duplicated_index rs
      else r # drop_duplicated_index rs)"

text \<open>
  \<^verbatim>\<open>df.sort_index()\<close>. It is only applied after the duplicated index values are
  dropped, so the order among equal keys does not matter.
\<close>

definition sort_index :: "dataframe \<Rightarrow> dataframe" where
  "sort_index df = sort_key idx df"

definition index_max :: "dataframe \<Rightarrow> timestamp" where
  "index_max df = Max (set (map idx df))"

text \<open>
  \<^verbatim>\<open>fetch_with_cache(date_from, date_to, cache_file)\<close>, with the clock
  (\<^verbatim>\<open>datetime.now().date()\<close>) and the site as inputs. It returns the frame, the cache
  file as it is left, and the list of the ranges requested from upstream (empty when no
  fetch was issued); an exception that escapes is \<open>Inl\<close>. The branch without a
  usable cache is \<open>fetch_without_cache\<close>.
\<close>

definition fetch_without_cache ::
  "site \<Rightarrow> timestamp \<Rightarrow> timestamp \<Rightarrow> cache_file \<Rightarrow>
     error + (dataframe \<times> cache_file \<times> (timestamp \<times> timestamp) list)" where
  "fetch_without_cache remote date_from date_to cache_file =
     (case fetch_fd_results remote date_from date_to of
        Inl e \<Rightarrow> Inl e
      | Inr df \<Rightarrow>
          Inr (df,
               (if df \<noteq> [] then save_cache cache_file df (date_of (index_max df))
                else cache_file),
               [(date_from, date_to)]))"

definition fetch_with_cache ::
  "date \<Rightarrow> site \<Rightarrow> timestamp \<Rightarrow> timestamp \<Rightarrow> cache_file \<Rightarrow>
     error + (dataframe \<times> cache_file \<times> (timestamp \<times> timestamp) list)" where
  "fetch_with_cache today remote date_from date_to cache_file =
     (case fst (load_cache cache_file) of
        None \<Rightarrow> fetch_without_cache remote date_from date_to cache_file
      | Some cached_df \<Rightarrow>
          if cached_df = [] then fetch_without_cache remote date_from date_to cache_file
          else
            let max_cached_date = date_of (index_max cached_df) in
            if today \<le> max_cached_date then
              Inr (date_mask cached_df date_from date_to, cache_file, [])
            else
              let fetch_from =
                    (if max_cached_date + 1 < date_of date_from then date_of date_from
                     else max_cached_date + 1)
              in (case fetch_fd_results remote (midnight fetch_from) date_to of
                    Inl e \<Rightarrow> Inl e
                  | Inr new_df \<Rightarrow>
                      if new_df \<noteq> [] then
                        let combined_df =
                              sort_index (drop_duplicated_index (cached_df @ new_df));
                            new_max_date = date_of (index_max combined_df)
                        in Inr (date_mask combined_df date_from date_to,
                                save_cache cache_file combined_df new_max_date,
                                [(midnight fetch_from, date_to)])
                      else
                        Inr (date_mask cached_df date_from date_to, cache_file,
                             [(midnight fetch_from, date_to)])))"

section \<open>Weighted analysis, uniformity test and top-k selection (analyzer.py)\<close>

definition DEFAULT_PRIZE_WEIGHTS :: "(string \<times> real) list" where
  "DEFAULT_PRIZE_WEIGHTS =
     [(FD_FIRST_PRIZE_CLASS, 1), (FD_SECOND_PRIZE_CLASS, 1), (FD_THIRD_PRIZE_CLASS, 1),
      (FD_STARTER_PRIZE_CLASS, 3 / 10), (FD_CONSOLATION_PRIZE_CLASS, 3 / 10)]"

definition analyze_first_digit_weighted ::
  "dataframe \<Rightarrow> (string \<times> real) list option \<Rightarrow> (string \<times> real) list" where
  "analyze_first_digit_weighted df weights =
     (let weights = (case weights of None \<Rightarrow> DEFAULT_PRIZE_WEIGHTS | Some w \<Rightarrow> w) in
      fold (\<lambda>r weighted_counts.
              (case strip (prize_number r) of
                 [] \<Rightarrow> weighted_counts
               | first_digit # _ \<Rightarrow>
                   if isdigit first_digit then
                     dict_add [first_digit]
                       (case map_of weights (prize_type r) of None \<Rightarrow> 1 | Some w \<Rightarrow> w)
                       weighted_counts
                   else weighted_counts))
        df (map (\<lambda>k. (k, 0)) digit_keys))"

text \<open>
  \<^verbatim>\<open>scipy.stats.chisquare\<close> is an input of the model: a function from the observed and
  the expected frequencies to the statistic and the p-value, which may raise.
\<close>

record chi2_result =
  chi2 :: real
  pvalue :: real
  is_uniform :: bool
  expected_per_digit :: real

definition chi_square_test_uniform ::
  "(real list \<Rightarrow> real list \<Rightarrow> error + real \<times> real) \<Rightarrow> (string \<times> real) list \<Rightarrow>
     error + chi2_result" where
  "chi_square_test_uniform chisquare digit_counts =
     (let observed = map (\<lambda>k. case map_of digit_counts k of None \<Rightarrow> 0 | Some c \<Rightarrow> c) digit_keys;
          total_observed = sum_list observed;
          per_digit = (if 0 < total_observed then total_observed / 10 else 0)
      in if total_observed = 0 then
           Inr \<lparr>chi2 = 0, pvalue = 1, is_uniform = True, expected_per_digit = 0\<rparr>
         else
           (case chisquare observed (replicate 10 per_digit) of
              Inl e \<Rightarrow> Inl e
            | Inr (statistic, p) \<Rightarrow>
                Inr \<lparr>chi2 = statistic, pvalue = p, is_uniform = (5 / 100 < p),
                     expected_per_digit = per_digit\<rparr>))"

text \<open>The slice \<^verbatim>\<open>xs[:k]\<close>; a negative \<^verbatim>\<open>k\<close> counts from the end.\<close>

definition py_prefix :: "int \<Rightarrow> 'a list \<Rightarrow> 'a list" where
  "py_prefix k xs = (if 0 \<le> k then take (nat k) xs else take (length xs - nat (- k)) xs)"

text \<open>
  \<^verbatim>\<open>sorted(..., key=lambda x: x[1], reverse=True)\<close> keeps the original order of items
  with equal keys; it is the stable sort by the negated key.
\<close>

definition select_digits_by_probability :: "(string \<times> real) list \<Rightarrow> int \<Rightarrow> string list" where
  "select_digits_by_probability probabilities top_k =
     map fst (py_prefix top_k (sort_key (\<lambda>(digit, prob). - prob) probabilities))"

section \<open>backtest.py\<close>

text \<open>
  The result dict of one window. Window sizes are numbers of draws, modelled as natural
  numbers; \<^verbatim>\<open>top_k\<close> values are integers. Dicts are association lists.
\<close>

record accuracy_entry =
  acc_correct :: nat
  acc_total :: nat
  acc_rate :: "real option"

record chi2_tally =
  tally_uniform :: nat
  tally_non_uniform :: nat
  tally_total :: nat

record window_results =
  window_size :: nat
  total_tests :: nat
  accuracy :: "(int \<times> accuracy_entry) list"
  chi2_tests :: chi2_tally

text \<open>\<^verbatim>\<open>d[k] = f(d[k])\<close> for a key the dict holds, and \<^verbatim>\<open>d[k] = v\<close>.\<close>

definition dict_map_at :: "'k \<Rightarrow> ('v \<Rightarrow> 'v) \<Rightarrow> ('k \<times> 'v) list \<Rightarrow> ('k \<times> 'v) list" where
  "dict_map_at k f d = map (\<lambda>(k', v). if k' = k then (k', f v) else (k', v)) d"

definition dict_set :: "'k \<Rightarrow> 'v \<Rightarrow> ('k \<times> 'v) list \<Rightarrow> ('k \<times> 'v) list" where
  "dict_set k v d =
     (if k \<in> set (map fst d) then dict_map_at k (\<lambda>_. v) d else d @ [(k, v)])"

text \<open>A \<^verbatim>\<open>for\<close> loop over a list that an exception in its body leaves.\<close>

fun for_each :: "('a \<Rightarrow> 's \<Rightarrow> error + 's) \<Rightarrow> 'a list \<Rightarrow> 's \<Rightarrow> error + 's" where
  "for_each body [] st = Inr st"
| "for_each body (x # xs) st =
     (case body x st of Inl e \<Rightarrow> Inl e | Inr st' \<Rightarrow> for_each body xs st')"

text \<open>The body of the loop over the test index \<^verbatim>\<open>i\<close>.\<close>

definition backtest_step ::
  "(real list \<Rightarrow> real list \<Rightarrow> error + real \<times> real) \<Rightarrow> dataframe \<Rightarrow> timestamp list \<Rightarrow>
     int list \<Rightarrow> (string \<times> real) list \<Rightarrow> real \<Rightarrow> nat \<Rightarrow> nat \<Rightarrow> window_results \<Rightarrow>
     error + window_results" where
  "backtest_step chisquare df unique_dates top_k_list weights alpha w i results =
     (let test_date = unique_dates ! i;
          train_dates = take w (drop (i - w) unique_dates);
          train_df = filter (\<lambda>r. idx r \<in> set train_dates) df;
          test_df = filter (\<lambda>r. idx r = test_date) df;
          first_prize_df = filter (\<lambda>r. prize_type r = FD_FIRST_PRIZE_CLASS) test_df
      in case first_prize_df of
           [] \<Rightarrow> Inr results
         | r0 # _ \<Rightarrow>
             (case strip (prize_number r0) of
                [] \<Rightarrow> Inl IndexError
              | actual_first_digit # _ \<Rightarrow>
                  if \<not> isdigit actual_first_digit then Inr results
                  else
                    let weighted_counts = analyze_first_digit_weighted train_df (Some weights) in
                    (case bayesian_smoothing weighted_counts alpha of
                       Inl e \<Rightarrow> Inl e
                     | Inr probabilities \<Rightarrow>
                         (case chi_square_test_uniform chisquare weighted_counts of
                            Inl e \<Rightarrow> Inl e
                          | Inr chi2_res \<Rightarrow>
                              let t = chi2_tests results;
                                  t = t\<lparr>tally_total := tally_total t + 1\<rparr>;
                                  t = (if is_uniform chi2_res
                                       then t\<lparr>tally_uniform := tally_uniform t + 1\<rparr>
                                       else t\<lparr>tally_non_uniform := tally_non_uniform t + 1\<rparr>);
                                  results = results\<lparr>chi2_tests := t\<rparr>
                              in Inr (fold (\<lambda>top_k res.
                                   let predicted_digits =
                                         select_digits_by_probability probabilities top_k;
                                       bump = (\<lambda>a.
                                         let a = a\<lparr>acc_total := acc_total a + 1\<rparr> in
                                         if [actual_first_digit] \<in> set predicted_digits
                                         then a\<lparr>acc_correct := acc_correct a + 1\<rparr> else a)
                                   in res\<lparr>accuracy := dict_map_at top_k bump (accuracy res)\<rparr>)
                                 top_k_list results)))))"

text \<open>One pass of the loop over \<^verbatim>\<open>window_sizes\<close>.\<close>

definition backtest_window ::
  "(real list \<Rightarrow> real list \<Rightarrow> error + real \<times> real) \<Rightarrow> dataframe \<Rightarrow> timestamp list \<Rightarrow>
     int list \<Rightarrow> (string \<times> real) list \<Rightarrow> real \<Rightarrow> nat \<Rightarrow> error + window_results" where
  "backtest_window chisquare df unique_dates top_k_list weights alpha w =
     (let initial =
            \<lparr>window_size = w, total_tests = 0,
             accuracy = map (\<lambda>k. (k, \<lparr>acc_correct = 0, acc_total = 0, acc_rate = None\<rparr>))
                          (rev (remdups (rev top_k_list))),
             chi2_tests = \<lparr>tally_uniform = 0, tally_non_uniform = 0, tally_total = 0\<rparr>\<rparr>
      in case for_each (backtest_step chisquare df unique_dates top_k_list weights alpha w)
                [w ..< length unique_dates] initial of
           Inl e \<Rightarrow> Inl e
         | Inr results \<Rightarrow>
             Inr (fold (\<lambda>top_k res.
                    res\<lparr>accuracy :=
                      dict_map_at top_k
                        (\<lambda>a. if 0 < acc_total a
                              then a\<lparr>acc_rate := Some (real (acc_correct a) / real (acc_total a))\<rparr>
                              else a)
                        (accuracy res)\<rparr>)
                  top_k_list results))"

text \<open>
  \<^verbatim>\<open>backtest_digit_prediction(df, window_sizes, top_k_list, weights, alpha)\<close>.
  \<^verbatim>\<open>max(window_sizes)\<close> raises ValueError on an empty list; the refusal returns the
  empty dict.
\<close>

definition backtest_digit_prediction ::
  "(real list \<Rightarrow> real list \<Rightarrow> error + real \<times> real) \<Rightarrow> dataframe \<Rightarrow> nat list \<Rightarrow> int list \<Rightarrow>
     (string \<times> real) list option \<Rightarrow> real \<Rightarrow> error + (nat \<times> window_results) list" where
  "backtest_digit_prediction chisquare df window_sizes top_k_list weights alpha =
     (let weights = (case weights of None \<Rightarrow> DEFAULT_PRIZE_WEIGHTS | Some w \<Rightarrow> w);
          unique_dates = sort (remdups (map idx df))
      in if window_sizes = [] then Inl ValueError
         else if length unique_dates < Max (set window_sizes) + 10 then Inr []
         else
           for_each
             (\<lambda>w results.
                case backtest_window chisquare df unique_dates top_k_list weights alpha w of
                  Inl e \<Rightarrow> Inl e
                | Inr window_res \<Rightarrow> Inr (dict_set w window_res results))
             window_sizes [])"

section \<open>Properties of the number filter\<close>

definition top_3_numbers :: "dataframe \<Rightarrow> string set" where
  "top_3_numbers df =
     unique_prize_numbers (filter (\<lambda>r. prize_type r \<in> set TOP_3_PRIZE_TYPES) df)"

lemma unique_prize_numbers_iff:
  "n \<in> unique_prize_numbers df \<longleftrightarrow> (\<exists>r \<in> set df. prize_number r = n)"
  by (auto simp: unique_prize_numbers_def)

lemma top_3_numbers_iff:
  "n \<in> top_3_numbers df \<longleftrightarrow>
     (\<exists>r \<in> set df. prize_number r = n \<and> prize_type r \<in> set TOP_3_PRIZE_TYPES)"
  by (auto simp: top_3_numbers_def unique_prize_numbers_def)

lemma numbers_appeared_multiple_iff:
  "n \<in> numbers_appeared_multiple df \<longleftrightarrow> 1 < count_list (map prize_number df) n"
proof -
  have "n \<in> set (map prize_number df)" if "1 < count_list (map prize_number df) n"
    using that count_list_0_iff[of "map prize_number df" n] by fastforce
  then show ?thesis
    unfolding numbers_appeared_multiple_def Let_def by auto
qed

lemma top_3_numbers_Nil: "top_3_numbers [] = {}"
  by (simp add: top_3_numbers_def unique_prize_numbers_def)

lemma numbers_appeared_multiple_Nil: "numbers_appeared_multiple [] = {}"
  by (simp add: numbers_appeared_multiple_def)

text \<open>The four results written as set expressions over the candidate set.\<close>

lemma filter_numbers_by_history_unfold:
  "filter_numbers_by_history numbers d6 d1 =
     (sorted_list_of_set
        (if d1 \<noteq> [] then
           set numbers - unique_prize_numbers d6 - top_3_numbers d1 - numbers_appeared_multiple d1
         else set numbers - unique_prize_numbers d6),
      sorted_list_of_set (set numbers \<inter> unique_prize_numbers d6),
      (if d1 \<noteq> [] then
         sorted_list_of_set ((set numbers - unique_prize_numbers d6) \<inter> top_3_numbers d1)
       else []),
      (if d1 \<noteq> [] then
         sorted_list_of_set
           ((set numbers - unique_prize_numbers d6 - top_3_numbers d1)
              \<inter> numbers_appeared_multiple d1)
       else []))"
proof -
  have f: "Set.filter (\<lambda>num. num \<in> B) A = A \<inter> B" for A B :: "string set"
    by auto
  show ?thesis
    unfolding filter_numbers_by_history_def Let_def f top_3_numbers_def
    by (cases "d1 = []") (simp_all add: Int_commute)
qed

lemma filter_numbers_by_history_sets:
  assumes "filter_numbers_by_history numbers d6 d1 = (kept, ex6, ex3, exm)"
  shows "set ex6 = set numbers \<inter> unique_prize_numbers d6"
    and "set ex3 = (set numbers - unique_prize_numbers d6) \<inter> top_3_numbers d1"
    and "set exm =
           (set numbers - unique_prize_numbers d6 - top_3_numbers d1)
             \<inter> numbers_appeared_multiple d1"
    and "set kept =
           set numbers - unique_prize_numbers d6 - top_3_numbers d1
             - numbers_appeared_multiple d1"
proof -
  have fin: "finite (set numbers \<inter> A)" "finite ((set numbers - A) \<inter> B)"
    "finite (set numbers - A)" "finite (set numbers - A - B - C)"
    "finite ((set numbers - A - B) \<inter> C)" for A B C :: "string set"
    by auto
  from assms show "set ex6 = set numbers \<inter> unique_prize_numbers d6"
    unfolding filter_numbers_by_history_unfold by (auto simp: fin)
  from assms show "set ex3 = (set numbers - unique_prize_numbers d6) \<inter> top_3_numbers d1"
    unfolding filter_numbers_by_history_unfold
    by (cases "d1 = []") (auto simp: fin top_3_numbers_Nil)
  from assms show "set exm =
      (set numbers - unique_prize_numbers d6 - top_3_numbers d1) \<inter> numbers_appeared_multiple d1"
    unfolding filter_numbers_by_history_unfold
    by (cases "d1 = []") (auto simp: fin numbers_appeared_multiple_Nil)
  from assms show "set kept =
      set numbers - unique_prize_numbers d6 - top_3_numbers d1 - numbers_appeared_multiple d1"
    unfolding filter_numbers_by_history_unfold
    by (cases "d1 = []") (auto simp: fin top_3_numbers_Nil numbers_appeared_multiple_Nil)
qed

lemma filter_numbers_by_history_sorted:
  assumes "filter_numbers_by_history numbers d6 d1 = (kept, ex6, ex3, exm)"
  shows "sorted kept \<and> distinct kept" and "sorted ex6 \<and> distinct ex6"
    and "sorted ex3 \<and> distinct ex3" and "sorted exm \<and> distinct exm"
  using assms unfolding filter_numbers_by_history_unfold
  by (auto split: if_splits)

text \<open>
  C4. The filter applies three exclusion rules in order: the first result list holds the
  candidates found in the 6-month history (any category); the second the remaining
  candidates found among the Top-3 rows of the 1-year history; the third the candidates
  still remaining that occur more than once in the 1-year history; the kept list is what
  remains. With an empty 1-year history the second and third lists are empty. All four
  lists are sorted (and free of duplicates). In the scenario with candidates
  1234 and 5678, 1234 (and not 5678) in the 6-month history and 5678 among the 1-year
  Top-3 rows, the result is excluded_6mo = [1234], excluded_top3_1yr = [5678], kept empty.
\<close>

theorem filter_numbers_by_history_rules:
  assumes "filter_numbers_by_history numbers d6 d1 = (kept, ex6, ex3, exm)"
  shows "set ex6 = {n \<in> set numbers. \<exists>r \<in> set d6. prize_number r = n}
       \<and> set ex3 = {n \<in> set numbers - set ex6.
                      \<exists>r \<in> set d1. prize_number r = n \<and> prize_type r \<in> set TOP_3_PRIZE_TYPES}
       \<and> set exm = {n \<in> set numbers - set ex6 - set ex3.
                      1 < count_list (map prize_number d1) n}
       \<and> set kept = set numbers - set ex6 - set ex3 - set exm
       \<and> (d1 = [] \<longrightarrow> ex3 = [] \<and> exm = [] \<and> set kept = set numbers - set ex6)
       \<and> sorted kept \<and> distinct kept \<and> sorted ex6 \<and> distinct ex6
       \<and> sorted ex3 \<and> distinct ex3 \<and> sorted exm \<and> distinct exm
       \<and> (set numbers = {''1234'', ''5678''}
            \<and> (\<exists>r \<in> set d6. prize_number r = ''1234'')
            \<and> \<not> (\<exists>r \<in> set d6. prize_number r = ''5678'')
            \<and> (\<exists>r \<in> set d1. prize_number r = ''5678'' \<and> prize_type r \<in> set TOP_3_PRIZE_TYPES)
          \<longrightarrow> kept = [] \<and> ex6 = [''1234''] \<and> ex3 = [''5678''] \<and> exm = [])"
proof -
  note s = filter_numbers_by_history_sets[OF assms]
  note o = filter_numbers_by_history_sorted[OF assms]
  have e6: "set ex6 = {n \<in> set numbers. \<exists>r \<in> set d6. prize_number r = n}"
    unfolding s(1) by (auto simp: unique_prize_numbers_iff)
  have e3: "set ex3 = {n \<in> set numbers - set ex6.
      \<exists>r \<in> set d1. prize_number r = n \<and> prize_type r \<in> set TOP_3_PRIZE_TYPES}"
    unfolding s(1,2) by (auto simp: top_3_numbers_iff)
  have em: "set exm = {n \<in> set numbers - set ex6 - set ex3.
      1 < count_list (map prize_number d1) n}"
    unfolding s(1,2,3) by (auto simp: numbers_appeared_multiple_iff)
  have k: "set kept = set numbers - set ex6 - set ex3 - set exm"
    unfolding s by auto
  have empty1: "ex3 = [] \<and> exm = [] \<and> set kept = set numbers - set ex6" if "d1 = []"
    using that s(2,3) k by (simp add: top_3_numbers_Nil numbers_appeared_multiple_Nil)
  have scen: "kept = [] \<and> ex6 = [''1234''] \<and> ex3 = [''5678''] \<and> exm = []"
    if h: "set numbers = {''1234'', ''5678''}"
      "\<exists>r \<in> set d6. prize_number r = ''1234''"
      "\<not> (\<exists>r \<in> set d6. prize_number r = ''5678'')"
      "\<exists>r \<in> set d1. prize_number r = ''5678'' \<and> prize_type r \<in> set TOP_3_PRIZE_TYPES"
  proof -
    have a: "''1234'' \<in> unique_prize_numbers d6" "''5678'' \<notin> unique_prize_numbers d6"
      using h(2,3) by (simp_all add: unique_prize_numbers_iff)
    have b: "''5678'' \<in> top_3_numbers d1"
      using h(4) by (simp add: top_3_numbers_iff)
    have ne: "d1 \<noteq> []"
      using h(4) by auto
    have i6: "set numbers \<inter> unique_prize_numbers d6 = {''1234''}"
      using a h(1) by auto
    have i3: "(set numbers - unique_prize_numbers d6) \<inter> top_3_numbers d1 = {''5678''}"
      using a b h(1) by auto
    have im: "(set numbers - unique_prize_numbers d6 - top_3_numbers d1)
        \<inter> numbers_appeared_multiple d1 = {}"
      using a b h(1) by auto
    have ik: "set numbers - unique_prize_numbers d6 - top_3_numbers d1
        - numbers_appeared_multiple d1 = {}"
      using a b h(1) by auto
    from assms show ?thesis
      unfolding filter_numbers_by_history_unfold using ne by (simp add: i6 i3 im ik)
  qed
  from e6 e3 em k empty1 scen o show ?thesis
    by blast
qed

theorem filter_numbers_by_history_rules_witness:
  "filter_numbers_by_history [''5678'', ''1234'']
      [\<lparr>idx = 0, prize_number = ''1234'', prize_type = ''tbodyStarterPrizes''\<rparr>]
      [\<lparr>idx = 0, prize_number = ''5678'', prize_type = ''tdSecondPrize''\<rparr>]
     = ([], [''1234''], [''5678''], [])
   \<and> set [''1234''] = {n \<in> set [''5678'', ''1234''].
        \<exists>r \<in> set [\<lparr>idx = 0, prize_number = ''1234'', prize_type = ''tbodyStarterPrizes''\<rparr>].
          prize_number r = n}
   \<and> set ([] :: string list) = set [''5678'', ''1234''] - set [''1234''] - set [''5678''] - set []"
proof -
  have h: "filter_numbers_by_history [''5678'', ''1234'']
      [\<lparr>idx = 0, prize_number = ''1234'', prize_type = ''tbodyStarterPrizes''\<rparr>]
      [\<lparr>idx = 0, prize_number = ''5678'', prize_type = ''tdSecondPrize''\<rparr>]
     = ([], [''1234''], [''5678''], [])"
    by code_simp
  from filter_numbers_by_history_rules[OF h] h show ?thesis
    by blast
qed

text \<open>
  C9. The four lists returned by the filter are pairwise disjoint and together hold
  exactly the candidates: every candidate is in exactly one of them.
\<close>

theorem filter_numbers_by_history_partition:
  assumes "filter_numbers_by_history numbers d6 d1 = (kept, ex6, ex3, exm)"
  shows "set kept \<union> set ex6 \<union> set ex3 \<union> set exm = set numbers
       \<and> set kept \<inter> set ex6 = {} \<and> set kept \<inter> set ex3 = {} \<and> set kept \<inter> set exm = {}
       \<and> set ex6 \<inter> set ex3 = {} \<and> set ex6 \<inter> set exm = {} \<and> set ex3 \<inter> set exm = {}"
  unfolding filter_numbers_by_history_sets[OF assms] by blast

theorem filter_numbers_by_history_partition_witness:
  "filter_numbers_by_history [''1234'', ''5678'', ''0001'', ''9999'', ''0001'']
      [\<lparr>idx = 5, prize_number = ''1234'', prize_type = ''tbodyStarterPrizes''\<rparr>]
      [\<lparr>idx = 1, prize_number = ''5678'', prize_type = ''tdFirstPrize''\<rparr>,
       \<lparr>idx = 1, prize_number = ''9999'', prize_type = ''tbodyStarterPrizes''\<rparr>,
       \<lparr>idx = 2, prize_number = ''9999'', prize_type = ''tbodyStarterPrizes''\<rparr>]
     = ([''0001''], [''1234''], [''5678''], [''9999''])
   \<and> set [''0001''] \<union> set [''1234''] \<union> set [''5678''] \<union> set [''9999'']
       = set [''1234'', ''5678'', ''0001'', ''9999'', ''0001'']
   \<and> set [''0001''] \<inter> set [''1234''] = ({} :: string set)"
proof -
  have h: "filter_numbers_by_history [''1234'', ''5678'', ''0001'', ''9999'', ''0001'']
      [\<lparr>idx = 5, prize_number = ''1234'', prize_type = ''tbodyStarterPrizes''\<rparr>]
      [\<lparr>idx = 1, prize_number = ''5678'', prize_type = ''tdFirstPrize''\<rparr>,
       \<lparr>idx = 1, prize_number = ''9999'', prize_type = ''tbodyStarterPrizes''\<rparr>,
       \<lparr>idx = 2, prize_number = ''9999'', prize_type = ''tbodyStarterPrizes''\<rparr>]
     = ([''0001''], [''1234''], [''5678''], [''9999''])"
    by code_simp
  from filter_numbers_by_history_partition[OF h] h show ?thesis
    by blast
qed

section \<open>Properties of first-digit extraction and counting\<close>











section \<open>Properties of Bayesian smoothing\<close>









section \<open>Properties of digit selection\<close>




section \<open>Properties of the history cache\<close>

lemma load_cache_nonempty: "fst (load_cache f) = Some c \<Longrightarrow> c \<noteq> []"
  by (auto simp: load_cache_def split: cache_file.splits option.splits if_splits)

text \<open>
  C3. When the newest cached date is today or later, the call issues no upstream fetch,
  leaves the cache file as it is and returns exactly the cached rows whose index lies in
  the requested range, whatever the site would answer; a second call on the cache file
  the first one left (the clock still not past the newest cached date) again issues no
  fetch and returns the same rows.
\<close>

theorem fetch_with_cache_up_to_date:
  assumes "fst (load_cache cache_file) = Some cached_df"
    and "today \<le> date_of (index_max cached_df)"
    and "today' \<le> date_of (index_max cached_df)"
  shows "\<exists>result cache_file'.
      fetch_with_cache today remote date_from date_to cache_file = Inr (result, cache_file', [])
    \<and> result = filter (\<lambda>r. date_from \<le> idx r \<and> idx r \<le> date_to) cached_df
    \<and> cache_file' = cache_file
    \<and> fetch_with_cache today' remote' date_from date_to cache_file' = Inr (result, cache_file', [])"
  using assms load_cache_nonempty[OF assms(1)]
  by (simp add: fetch_with_cache_def Let_def date_mask_def)

theorem fetch_with_cache_up_to_date_witness:
  "fetch_with_cache 3 Unreachable 100000 300000
     (Pickled (Some [\<lparr>idx = 86400, prize_number = ''1111'', prize_type = ''tdFirstPrize''\<rparr>,
                     \<lparr>idx = 172800, prize_number = ''2222'', prize_type = ''tdFirstPrize''\<rparr>,
                     \<lparr>idx = 345600, prize_number = ''3333'', prize_type = ''tdFirstPrize''\<rparr>]) None)
   = Inr ([\<lparr>idx = 172800, prize_number = ''2222'', prize_type = ''tdFirstPrize''\<rparr>],
       Pickled (Some [\<lparr>idx = 86400, prize_number = ''1111'', prize_type = ''tdFirstPrize''\<rparr>,
                     \<lparr>idx = 172800, prize_number = ''2222'', prize_type = ''tdFirstPrize''\<rparr>,
                     \<lparr>idx = 345600, prize_number = ''3333'', prize_type = ''tdFirstPrize''\<rparr>]) None, [])"
proof -
  let ?c = "[\<lparr>idx = 86400, prize_number = ''1111'', prize_type = ''tdFirstPrize''\<rparr>,
                     \<lparr>idx = 172800, prize_number = ''2222'', prize_type = ''tdFirstPrize''\<rparr>,
                     \<lparr>idx = 345600, prize_number = ''3333'', prize_type = ''tdFirstPrize''\<rparr>]"
  have h1: "fst (load_cache (Pickled (Some ?c) None)) = Some ?c"
    by (simp add: load_cache_def)
  have h2: "3 \<le> date_of (index_max ?c)"
    by (simp add: date_of_def index_max_def)
  from fetch_with_cache_up_to_date[OF h1 h2 h2, of Unreachable 100000 300000] show ?thesis
    by simp
qed

text \<open>
  C1. The merge drops index values that are duplicated, and the index is the draw date
  alone: of all the rows of one date only the last survives. Here the cache holds the
  first and the second prize of one draw and a later draw is fetched; the merged and
  persisted frame has lost the cached first prize, whose date, category and position no
  other row shares. (The merged frame is sorted by date and stored with the newest date
  as \<^verbatim>\<open>last_date\<close>.)
\<close>

theorem merge_keeps_one_row_per_date:
  "fetch_with_cache 3
     (Site [DrawPage 259200 (Some \<lparr>first_prize = ''6666'', second_prize = ''7777'',
              third_prize = ''8888'', starter_prizes = [], consolation_prizes = []\<rparr>)])
     0 300000
     (Pickled (Some [\<lparr>idx = 86400, prize_number = ''1111'', prize_type = ''tdFirstPrize''\<rparr>,
                     \<lparr>idx = 86400, prize_number = ''2222'', prize_type = ''tdSecondPrize''\<rparr>])
              (Some 1))
   = Inr ([\<lparr>idx = 86400, prize_number = ''2222'', prize_type = ''tdSecondPrize''\<rparr>,
           \<lparr>idx = 259200, prize_number = ''8888'', prize_type = ''tdThirdPrize''\<rparr>],
          Pickled (Some [\<lparr>idx = 86400, prize_number = ''2222'', prize_type = ''tdSecondPrize''\<rparr>,
                         \<lparr>idx = 259200, prize_number = ''8888'', prize_type = ''tdThirdPrize''\<rparr>])
                  (Some 3),
          [(172800, 300000)])"
  by code_simp

text \<open>
  C2. The request for the draw list is not guarded: when it raises, the exception
  leaves \<^verbatim>\<open>fetch_with_cache\<close>, with a stale cache as well as with none, and nothing is
  returned.
\<close>

theorem draw_list_failure_escapes:
  "fetch_with_cache 3 Unreachable 0 300000
     (Pickled (Some [\<lparr>idx = 86400, prize_number = ''1111'', prize_type = ''tdFirstPrize''\<rparr>])
              (Some 1))
     = Inl ConnectionError
   \<and> fetch_with_cache 3 Unreachable 0 300000 Missing = Inl ConnectionError"
  by code_simp

text \<open>
  What the code does when the site answers and the scan collects no row (no draw in
  range, or every page failing): it returns the cached rows of the requested range, or
  the empty frame when there is no cache, and leaves the cache file alone.
\<close>

lemma fetch_with_cache_nothing_fetched:
  assumes "\<forall>a. scan_draws a date_to pages = []"
  shows "\<exists>fetches. fetch_with_cache today (Site pages) date_from date_to cache_file =
     Inr ((case fst (load_cache cache_file) of
             None \<Rightarrow> []
           | Some cached_df \<Rightarrow> date_mask cached_df date_from date_to),
          cache_file, fetches)"
  using assms
  by (auto simp: fetch_with_cache_def fetch_without_cache_def fetch_fd_results_def Let_def
      date_mask_def split: option.splits)

section \<open>Properties of the backtest\<close>

lemma length_unique_dates: "length (sort (remdups (map idx df))) = card (idx ` set df)"
  by (simp add: length_remdups_card_conv)

text \<open>
  C6. When the number of distinct draw dates is below \<^verbatim>\<open>max(window_sizes) + 10\<close>, the
  backtest runs nothing and returns the empty result dict; no exception is raised. A
  history of 5 draws with window sizes [12] is refused in this way.
\<close>

theorem backtest_refuses_insufficient_data:
  assumes "window_sizes \<noteq> []"
    and "card (idx ` set df) < Max (set window_sizes) + 10"
  shows "backtest_digit_prediction chisquare df window_sizes top_k_list weights alpha = Inr []"
proof -
  have "length (sort (remdups (map idx df))) < Max (set window_sizes) + 10"
    using assms(2) by (simp only: length_unique_dates)
  with assms(1) show ?thesis
    unfolding backtest_digit_prediction_def Let_def by (simp only: if_False if_True)
qed

theorem backtest_refuses_insufficient_data_witness:
  "backtest_digit_prediction (\<lambda>observed expected. Inr (0, 1))
      [\<lparr>idx = 0, prize_number = ''1234'', prize_type = ''tdFirstPrize''\<rparr>,
       \<lparr>idx = 259200, prize_number = ''0421'', prize_type = ''tdFirstPrize''\<rparr>,
       \<lparr>idx = 345600, prize_number = ''9876'', prize_type = ''tdFirstPrize''\<rparr>,
       \<lparr>idx = 604800, prize_number = ''5555'', prize_type = ''tdFirstPrize''\<rparr>,
       \<lparr>idx = 864000, prize_number = ''3141'', prize_type = ''tdFirstPrize''\<rparr>]
      [12] [1, 3, 5] None 1
     = Inr []"
proof -
  let ?df = "[\<lparr>idx = 0, prize_number = ''1234'', prize_type = ''tdFirstPrize''\<rparr>,
       \<lparr>idx = 259200, prize_number = ''0421'', prize_type = ''tdFirstPrize''\<rparr>,
       \<lparr>idx = 345600, prize_number = ''9876'', prize_type = ''tdFirstPrize''\<rparr>,
       \<lparr>idx = 604800, prize_number = ''5555'', prize_type = ''tdFirstPrize''\<rparr>,
       \<lparr>idx = 864000, prize_number = ''3141'', prize_type = ''tdFirstPrize''\<rparr>]"
  have h1: "[12::nat] \<noteq> []"
    by simp
  have "card (idx ` set ?df) = 5"
    by simp
  then have h2: "card (idx ` set ?df) < Max (set [12::nat]) + 10"
    by simp
  from backtest_refuses_insufficient_data[OF h1 h2] show ?thesis .
qed

end
